theory Spec2Isabelle
  imports Complex_Main "HOL-Library.Char_ord" "HOL-Library.List_Lexorder"
begin

section \<open>Data model of \<open>lib/allOf.js\<close>\<close>

text \<open>
  A JavaScript value as it occurs in a parsed schema document. \<open>JUndef\<close> is the value
  \<open>undefined\<close>: reading a missing property yields it, and \<open>_exclusiveComparison\<close> can store
  it under an own key. Numbers are rationals. An object is the list of its own properties
  in enumeration order; every key occurs once in a JavaScript object, and the operations
  below keep it so. Its prototype is \<open>Object.prototype\<close>, as for every object \<open>JSON.parse\<close>
  produces, whatever its own properties are called.

  The embedding is a value model: the parent and the subschema of a call are taken to be
  separate trees, as \<open>JSON.parse\<close> produces them. Every function that mutates its
  arguments in the source returns the mutated parent and the mutated subschema.
\<close>

datatype json =
    JUndef
  | JNull
  | JBool bool
  | JNum rat
  | JStr string
  | JArr "json list"
  | JObj "(string \<times> json) list"

type_synonym obj = "(string \<times> json) list"

text \<open>A path segment is a property name or an array index; paths only occur in messages.\<close>

datatype seg = SKey string | SIdx nat

type_synonym path = "seg list"

text \<open>
  The strings thrown by the source, one constructor per message, each with the path (and
  the keyword) the message embeds. \<open>TypeError\<close> is the exception JavaScript itself raises
  when a value that is not a function is called, a property of \<open>undefined\<close> is read, or an
  object cannot be converted to a property key.
  \<open>Unmodelled\<close> is not an outcome of the source: it marks inputs on which the source
  relies on JavaScript's coercions or prototypes (a bound that is not a number, a schema
  position holding a string, a number, an array, \<open>null\<close> or \<open>undefined\<close>, an array keyword
  holding an object, an object-of-schemas keyword holding anything but an object, an
  assignment that replaces the prototype of an object), which this embedding does not
  cover. No theorem below draws a conclusion from this outcome other than that it is not
  one of the thrown strings.
\<close>

datatype error =
    BooleanCollapse path
  | AdditionalItemsNotSupported path
  | AdditionalPropertiesNotSupported path
  | MixedForms path
  | Collision string path
  | NotSupported string path
  | TypeError
  | Unmodelled

text \<open>The closed catalogue of collapser functions a vocabulary can name.\<close>

datatype merge_fn =
    Or
  | MaxOfMin
  | MinOfMax
  | ExclusiveComparison
  | ArrayUnion
  | ArrayIntersection
  | SingleValueOrArrayIntersection
  | CollapseArrayOrSingleSchemas
  | CollapseObjectOfSchemas
  | ParentWins
  | CollisionFn
  | NotSupportedFn

text \<open>
  A vocabulary gives the collapser a table holds as an own property under a keyword. The
  tables are plain objects, so that \<open>vocab[k]\<close> also finds the members they inherit from
  \<open>Object.prototype\<close>; \<open>inheritedCall\<close> below is the account of those. Property names that
  are array indices (which JavaScript enumerates before the others) are not considered.
\<close>

type_synonym vocab = "string \<Rightarrow> merge_fn option"

subsection \<open>Own properties\<close>

text \<open>
  The own-property test. The source writes it \<open>ob.hasOwnProperty(k)\<close>, which is this test
  when \<open>ob.hasOwnProperty\<close> is the inherited method, and a \<open>TypeError\<close> when \<open>ob\<close> has an own
  property of that name (a JSON value, not a function). \<open>collapseSchemas\<close>, the loop of
  \<open>_collapseObjectOfSchemas\<close> and the callback have a branch for the latter; the guards
  at the head of \<open>_collapseArrayOrSingleSchemas\<close> and \<open>_collapseObjectOfSchemas\<close> are the
  test itself: \<open>collapseSchemas\<close> calls them on a parent for which the call has just
  returned, and they are written for a subschema that has no such property.
\<close>

definition hasOwnProperty :: "obj \<Rightarrow> string \<Rightarrow> bool" where
  "hasOwnProperty ob k = (map_of ob k \<noteq> None)"

text \<open>
  \<open>ob[k]\<close>: the value of the own property, \<open>undefined\<close> when there is none. (For a name
  of a member of \<open>Object.prototype\<close> that \<open>ob\<close> does not have itself, JavaScript reads the
  inherited member; \<open>collapseSchemas\<close> hands a collapser only keywords that both sides have
  themselves.)
\<close>

definition get :: "obj \<Rightarrow> string \<Rightarrow> json" where
  "get ob k = (case map_of ob k of None \<Rightarrow> JUndef | Some v \<Rightarrow> v)"

text \<open>\<open>ob[k] = v\<close>: overwrite in place, or add the property after the existing ones.\<close>

fun put :: "obj \<Rightarrow> string \<Rightarrow> json \<Rightarrow> obj" where
  "put [] k v = [(k, v)]"
| "put ((k', v') # ob) k v = (if k' = k then (k, v) # ob else (k', v') # put ob k v)"

text \<open>\<open>delete ob[k]\<close>.\<close>

definition delete :: "obj \<Rightarrow> string \<Rightarrow> obj" where
  "delete ob k = filter (\<lambda>kv. fst kv \<noteq> k) ob"

text \<open>\<open>Object.keys(ob)\<close>.\<close>

definition keys :: "obj \<Rightarrow> string list" where
  "keys ob = map fst ob"

text \<open>
  The effect on \<open>ob\<close> of mutating in place the value stored under \<open>k\<close>: the property keeps
  its position, and an object without the property is left as it is.
\<close>

definition mutated :: "obj \<Rightarrow> string \<Rightarrow> json \<Rightarrow> obj" where
  "mutated ob k v = map (\<lambda>kv. if fst kv = k then (k, v) else kv) ob"

subsection \<open>What an object inherits\<close>

text \<open>
  \<open>ob[k] = v\<close> where \<open>ob\<close> has no own property \<open>k\<close>. For every name but \<open>__proto__\<close> this
  adds the property. \<open>__proto__\<close> is an accessor of \<open>Object.prototype\<close>: the assignment
  calls its setter, which ignores a value that is neither an object nor \<open>null\<close> and
  otherwise replaces the prototype of \<open>ob\<close>; no own property is created.
\<close>

fun replacesPrototype :: "json \<Rightarrow> bool" where
  "replacesPrototype (JObj ob) = True"
| "replacesPrototype (JArr xs) = True"
| "replacesPrototype JNull = True"
| "replacesPrototype v = False"

definition assign :: "obj \<Rightarrow> string \<Rightarrow> json \<Rightarrow> error + obj" where
  "assign ob k v =
     (if k = ''__proto__'' \<and> \<not> hasOwnProperty ob k
      then (if replacesPrototype v then Inl Unmodelled else Inr ob)
      else Inr (put ob k v))"

text \<open>
  \<open>vocab[k](parent, parentPath, subschema, vocab, k)\<close> where the table has no own
  property \<open>k\<close>: what \<open>vocab[k]\<close> is then, and what the call does.
  \<^item> \<open>constructor\<close> (\<open>Object\<close>, which returns the parent), \<open>isPrototypeOf\<close>, \<open>toString\<close>
    and \<open>valueOf\<close> return without effect.
  \<^item> \<open>toLocaleString\<close> calls \<open>vocab.toString()\<close>: the inherited one, or the collapser a
    table holds under \<open>toString\<close>, called without arguments; all collapsers but
    \<open>_parentWins\<close> then read a property of \<open>undefined\<close>.
  \<^item> \<open>__defineGetter__\<close> and \<open>__defineSetter__\<close> want a function as second argument and get
    the path; \<open>__proto__\<close> is \<open>Object.prototype\<close> itself, which is not a function.
  \<^item> \<open>hasOwnProperty\<close>, \<open>propertyIsEnumerable\<close>, \<open>__lookupGetter__\<close> and
    \<open>__lookupSetter__\<close> convert the parent to a property key, which fails when the
    parent has an own \<open>toString\<close> (a JSON value, not a function) and gives
    \<open>"[object Object]"\<close> otherwise.
  \<^item> Any other name: \<open>vocab[k]\<close> is \<open>undefined\<close>.
\<close>

datatype inherited = NoMember | NoEffect | RaisesTypeError

definition inheritedCall :: "vocab \<Rightarrow> obj \<Rightarrow> string \<Rightarrow> inherited" where
  "inheritedCall vocab parent k =
     (if k \<in> {''constructor'', ''isPrototypeOf'', ''toString'', ''valueOf''} then NoEffect
      else if k = ''toLocaleString''
      then (case vocab ''toString'' of
              None \<Rightarrow> NoEffect
            | Some f \<Rightarrow> if f = ParentWins then NoEffect else RaisesTypeError)
      else if k \<in> {''__defineGetter__'', ''__defineSetter__'', ''__proto__''}
      then RaisesTypeError
      else if k \<in> {''hasOwnProperty'', ''propertyIsEnumerable'', ''__lookupGetter__'',
                    ''__lookupSetter__''}
      then (if hasOwnProperty parent ''toString'' then RaisesTypeError else NoEffect)
      else NoMember)"

subsection \<open>JavaScript and lodash primitives\<close>

text \<open>Truthiness, as \<open>||\<close> tests it.\<close>

fun truthy :: "json \<Rightarrow> bool" where
  "truthy JUndef = False"
| "truthy JNull = False"
| "truthy (JBool b) = b"
| "truthy (JNum n) = (n \<noteq> 0)"
| "truthy (JStr s) = (s \<noteq> [])"
| "truthy (JArr xs) = True"
| "truthy (JObj ob) = True"

fun isArray :: "json \<Rightarrow> bool" where
  "isArray (JArr xs) = True"
| "isArray v = False"

text \<open>The elements of an array.\<close>

fun elements :: "json \<Rightarrow> json list" where
  "elements (JArr xs) = xs"
| "elements v = []"

fun toNumber :: "json \<Rightarrow> rat option" where
  "toNumber (JNum n) = Some n"
| "toNumber v = None"

text \<open>
  \<open>_.isEqual\<close> (lodash, by its documentation): deep comparison; arrays are compared element
  by element in order, objects by their key sets and the values under each key, whatever
  the order of the keys. Two values are equal in this sense when they agree once the
  properties of every object are put in the order of their keys.
\<close>

fun canonical :: "json \<Rightarrow> json" where
  "canonical (JArr xs) = JArr (map canonical xs)"
| "canonical (JObj ob) = JObj (sort_key fst (map (\<lambda>kv. (fst kv, canonical (snd kv))) ob))"
| "canonical v = v"

definition isEqual :: "json \<Rightarrow> json \<Rightarrow> bool" where
  "isEqual a b = (canonical a = canonical b)"

text \<open>
  The arrays lodash flattens out of an argument of \<open>_.unionWith\<close> or
  \<open>_.intersectionWith\<close>: an array counts as itself and a primitive as no elements.
\<close>

fun arrayLike :: "json \<Rightarrow> json list option" where
  "arrayLike (JArr xs) = Some xs"
| "arrayLike (JObj ob) = None"
| "arrayLike v = Some []"

text \<open>Keep the first of the values that are \<open>_.isEqual\<close> to one another.\<close>

fun uniqWith :: "json list \<Rightarrow> json list \<Rightarrow> json list" where
  "uniqWith seen [] = seen"
| "uniqWith seen (x # xs) =
     (if list_ex (isEqual x) seen then uniqWith seen xs else uniqWith (seen @ [x]) xs)"

definition unionWith :: "json list \<Rightarrow> json list \<Rightarrow> json list" where
  "unionWith xs ys = uniqWith [] (xs @ ys)"

definition intersectionWith :: "json list \<Rightarrow> json list \<Rightarrow> json list" where
  "intersectionWith xs ys = uniqWith [] (filter (\<lambda>x. list_ex (isEqual x) ys) xs)"

section \<open>Collapser functions\<close>

text \<open>
  Every collapser takes the parent, the path, the subschema, the vocabulary and the
  keyword, as in the source, and in addition the value \<open>v\<close> the subschema holds under the
  keyword, which \<open>collapseSchemas\<close> hands over together with the keyword: a direct call
  \<open>f(parent, path, subschema, vocab, keyword)\<close> of the source is
  \<open>f parent path subschema vocab keyword (get subschema keyword)\<close>.
\<close>

type_synonym outcome = "error + (obj \<times> obj)"

definition orValues :: "obj \<Rightarrow> path \<Rightarrow> obj \<Rightarrow> vocab \<Rightarrow> string \<Rightarrow> json \<Rightarrow> outcome" where
  "orValues parent parentPath subschema vocab keyword v =
     Inr (put parent keyword (if truthy (get parent keyword) then get parent keyword else v),
          subschema)"

definition maxOfMin :: "obj \<Rightarrow> path \<Rightarrow> obj \<Rightarrow> vocab \<Rightarrow> string \<Rightarrow> json \<Rightarrow> outcome" where
  "maxOfMin parent parentPath subschema vocab keyword v =
     (case (toNumber (get parent keyword), toNumber v) of
        (Some a, Some b) \<Rightarrow> Inr (put parent keyword (JNum (max a b)), subschema)
      | _ \<Rightarrow> Inl Unmodelled)"

definition minOfMax :: "obj \<Rightarrow> path \<Rightarrow> obj \<Rightarrow> vocab \<Rightarrow> string \<Rightarrow> json \<Rightarrow> outcome" where
  "minOfMax parent parentPath subschema vocab keyword v =
     (case (toNumber (get parent keyword), toNumber v) of
        (Some a, Some b) \<Rightarrow> Inr (put parent keyword (JNum (min a b)), subschema)
      | _ \<Rightarrow> Inl Unmodelled)"

definition excKeyword :: "string \<Rightarrow> string" where
  "excKeyword keyword = ''exclusiveM'' @ drop 1 keyword"

definition chooseSubValue :: "string \<Rightarrow> rat \<Rightarrow> rat \<Rightarrow> bool" where
  "chooseSubValue keyword p s = (if keyword = ''minimum'' then p < s else p > s)"

definition exclusiveComparison ::
  "obj \<Rightarrow> path \<Rightarrow> obj \<Rightarrow> vocab \<Rightarrow> string \<Rightarrow> json \<Rightarrow> outcome" where
  "exclusiveComparison parent parentPath subschema vocab keyword v =
     (case (toNumber (get parent keyword), toNumber v) of
        (Some a, Some b) \<Rightarrow>
          if a = b \<and> (truthy (get parent (excKeyword keyword))
                      \<or> truthy (get subschema (excKeyword keyword)))
          then Inr (put parent (excKeyword keyword) (JBool True), subschema)
          else if chooseSubValue keyword a b
          then Inr (put (put parent keyword v) (excKeyword keyword)
                      (get subschema (excKeyword keyword)), subschema)
          else Inr (parent, subschema)
      | _ \<Rightarrow> Inl Unmodelled)"

definition arrayUnion :: "obj \<Rightarrow> path \<Rightarrow> obj \<Rightarrow> vocab \<Rightarrow> string \<Rightarrow> json \<Rightarrow> outcome" where
  "arrayUnion parent parentPath subschema vocab keyword v =
     (case (arrayLike (get parent keyword), arrayLike v) of
        (Some xs, Some ys) \<Rightarrow> Inr (put parent keyword (JArr (unionWith xs ys)), subschema)
      | _ \<Rightarrow> Inl Unmodelled)"

definition arrayIntersection ::
  "obj \<Rightarrow> path \<Rightarrow> obj \<Rightarrow> vocab \<Rightarrow> string \<Rightarrow> json \<Rightarrow> outcome" where
  "arrayIntersection parent parentPath subschema vocab keyword v =
     (case (arrayLike (get parent keyword), arrayLike v) of
        (Some xs, Some ys) \<Rightarrow>
          Inr (put parent keyword (JArr (intersectionWith xs ys)), subschema)
      | _ \<Rightarrow> Inl Unmodelled)"

text \<open>A scalar becomes a one-element array, on the parent and on the subschema alike.\<close>

definition wrapped :: "json \<Rightarrow> json" where
  "wrapped v = (if isArray v then v else JArr [v])"

definition unwrapSingle :: "obj \<Rightarrow> string \<Rightarrow> obj" where
  "unwrapSingle parent keyword =
     (case get parent keyword of
        JArr [x] \<Rightarrow> put parent keyword x
      | _ \<Rightarrow> parent)"

definition singleValueOrArrayIntersection ::
  "obj \<Rightarrow> path \<Rightarrow> obj \<Rightarrow> vocab \<Rightarrow> string \<Rightarrow> json \<Rightarrow> outcome" where
  "singleValueOrArrayIntersection parent parentPath subschema vocab keyword v =
     (let parent1 = (if isArray (get parent keyword) then parent
                     else put parent keyword (JArr [get parent keyword]));
          subschema1 = (if isArray v then subschema else put subschema keyword (JArr [v]))
      in case arrayIntersection parent1 parentPath subschema1 vocab keyword (wrapped v) of
           Inl e \<Rightarrow> Inl e
         | Inr (parent2, subschema2) \<Rightarrow> Inr (unwrapSingle parent2 keyword, subschema2))"

definition parentWins :: "obj \<Rightarrow> path \<Rightarrow> obj \<Rightarrow> vocab \<Rightarrow> string \<Rightarrow> json \<Rightarrow> outcome" where
  "parentWins parent parentPath subschema vocab keyword v = Inr (parent, subschema)"

definition collision :: "obj \<Rightarrow> path \<Rightarrow> obj \<Rightarrow> vocab \<Rightarrow> string \<Rightarrow> json \<Rightarrow> outcome" where
  "collision parent parentPath subschema vocab keyword v =
     (if \<not> isEqual (get parent keyword) v then Inl (Collision keyword parentPath)
      else Inr (parent, subschema))"

definition notSupported :: "obj \<Rightarrow> path \<Rightarrow> obj \<Rightarrow> vocab \<Rightarrow> string \<Rightarrow> json \<Rightarrow> outcome" where
  "notSupported parent parentPath subschema vocab keyword v =
     Inl (NotSupported keyword parentPath)"

text \<open>The two dangling-modifier deletions at the head of \<open>collapseSchemas\<close>.\<close>

definition pruneDangling :: "obj \<Rightarrow> obj" where
  "pruneDangling parent =
     (let parent1 = (if hasOwnProperty parent ''exclusiveMaximum''
                        \<and> \<not> hasOwnProperty parent ''maximum''
                     then delete parent ''exclusiveMaximum'' else parent)
      in if hasOwnProperty parent1 ''exclusiveMinimum''
            \<and> \<not> hasOwnProperty parent1 ''minimum''
         then delete parent1 ''exclusiveMinimum'' else parent1)"

text \<open>\<open>_.union(Object.keys(a), Object.keys(b))\<close>.\<close>

definition unionKeys :: "obj \<Rightarrow> obj \<Rightarrow> string list" where
  "unionKeys a b = keys a @ filter (\<lambda>k. k \<notin> set (keys a)) (keys b)"

section \<open>The schema collapser\<close>

text \<open>
  \<open>collapseSchemas\<close> with the two collapsers that call it back.

  \<open>collapseKeys\<close> is what \<open>collapseSchemas\<close> does with two objects once the parent is
  pruned. Its test stands for the calls \<open>parent.hasOwnProperty(...)\<close> of the pruning
  (lines 389 and 395), which find an own property \<open>hasOwnProperty\<close> of the parent, a JSON
  value and not a function, before the inherited method; pruning does not touch that
  property. \<open>collapseLoop\<close> is the loop \<open>for (let k of Object.keys(subschema))\<close>: it runs
  over the own properties the subschema had when the loop started, each keyword together
  with its value, and threads the parent and the subschema as mutated so far. (The source
  reads \<open>subschema[k]\<close> when \<open>k\<close> is reached; a collapser writes the subschema under its
  own keyword only, see \<open>applyMerge_subschema_frame\<close> below, so that the value is still
  the one the loop started with.) Each round calls \<open>parent.hasOwnProperty(k)\<close>, then looks
  \<open>vocab[k]\<close> up, in the table first and in what the table inherits next, or assigns
  \<open>parent[k]\<close>.

  \<open>collapseTuple\<close> is the loop over the common prefix of two tuple-form \<open>items\<close>, and
  \<open>collapseProps\<close> the loop over the union of the property names; the latter reads the
  subschema's properties as they were when the loop started (\<open>subVal0\<close>; each name is
  visited once, so its entry is still untouched when it is read) and collects the mutated
  ones in \<open>subVal\<close>.
\<close>

lemma size_get_less [termination_simp]:
  "size (get ob k) < Suc (size_list (size_prod (\<lambda>_. 0) size) ob)"
  by (induction ob) (auto simp: get_def)

lemma size_elements [termination_simp]:
  "isArray v \<Longrightarrow> Suc (size_list size (elements v)) = size v"
  by (cases v) auto

function collapseSchemas :: "json \<Rightarrow> path \<Rightarrow> json \<Rightarrow> vocab \<Rightarrow> error + (json \<times> json)"
  and collapseKeys :: "obj \<Rightarrow> obj \<Rightarrow> path \<Rightarrow> obj \<Rightarrow> vocab \<Rightarrow> outcome"
  and collapseLoop :: "obj \<Rightarrow> obj \<Rightarrow> path \<Rightarrow> obj \<Rightarrow> vocab \<Rightarrow> outcome"
  and applyMerge :: "merge_fn \<Rightarrow> obj \<Rightarrow> path \<Rightarrow> obj \<Rightarrow> vocab \<Rightarrow> string \<Rightarrow> json \<Rightarrow> outcome"
  and collapseArrayOrSingleSchemas :: "obj \<Rightarrow> path \<Rightarrow> obj \<Rightarrow> vocab \<Rightarrow> string \<Rightarrow> json \<Rightarrow> outcome"
  and collapseTuple ::
    "nat \<Rightarrow> json list \<Rightarrow> json list \<Rightarrow> path \<Rightarrow> vocab \<Rightarrow> string \<Rightarrow> error + (json list \<times> json list)"
  and collapseObjectOfSchemas :: "obj \<Rightarrow> path \<Rightarrow> obj \<Rightarrow> vocab \<Rightarrow> string \<Rightarrow> json \<Rightarrow> outcome"
  and collapseProps ::
    "string list \<Rightarrow> obj \<Rightarrow> obj \<Rightarrow> obj \<Rightarrow> path \<Rightarrow> vocab \<Rightarrow> string \<Rightarrow> outcome"
where
  "collapseSchemas parent parentPath subschema vocab =
     (if parent = JBool True \<or> (parent \<noteq> JBool False \<and> subschema = JBool False)
      then Inl (BooleanCollapse parentPath)
      else if parent = JBool False \<or> subschema = JBool True
      then Inr (parent, subschema)
      else case (parent, subschema) of
             (JObj p, JObj s) \<Rightarrow>
               (case collapseKeys s (pruneDangling p) parentPath s vocab of
                  Inl e \<Rightarrow> Inl e
                | Inr (p', s') \<Rightarrow> Inr (JObj p', JObj s'))
           | _ \<Rightarrow> Inl Unmodelled)"
| "collapseKeys entries parent parentPath subschema vocab =
     (if hasOwnProperty parent ''hasOwnProperty'' then Inl TypeError
      else collapseLoop entries parent parentPath subschema vocab)"
| "collapseLoop [] parent parentPath subschema vocab = Inr (parent, subschema)"
| "collapseLoop ((k, v) # rest) parent parentPath subschema vocab =
     (if hasOwnProperty parent ''hasOwnProperty'' then Inl TypeError
      else if hasOwnProperty parent k
      then (case vocab k of
              Some f \<Rightarrow>
                (case applyMerge f parent parentPath subschema vocab k v of
                   Inl e \<Rightarrow> Inl e
                 | Inr (parent', subschema') \<Rightarrow>
                     collapseLoop rest parent' parentPath subschema' vocab)
            | None \<Rightarrow>
                (case inheritedCall vocab parent k of
                   RaisesTypeError \<Rightarrow> Inl TypeError
                 | _ \<Rightarrow> collapseLoop rest parent parentPath subschema vocab))
      else (case assign parent k v of
              Inl e \<Rightarrow> Inl e
            | Inr parent' \<Rightarrow> collapseLoop rest parent' parentPath subschema vocab))"
| "applyMerge f parent parentPath subschema vocab keyword v =
     (case f of
        Or \<Rightarrow> orValues parent parentPath subschema vocab keyword v
      | MaxOfMin \<Rightarrow> maxOfMin parent parentPath subschema vocab keyword v
      | MinOfMax \<Rightarrow> minOfMax parent parentPath subschema vocab keyword v
      | ExclusiveComparison \<Rightarrow> exclusiveComparison parent parentPath subschema vocab keyword v
      | ArrayUnion \<Rightarrow> arrayUnion parent parentPath subschema vocab keyword v
      | ArrayIntersection \<Rightarrow> arrayIntersection parent parentPath subschema vocab keyword v
      | SingleValueOrArrayIntersection \<Rightarrow>
          singleValueOrArrayIntersection parent parentPath subschema vocab keyword v
      | CollapseArrayOrSingleSchemas \<Rightarrow>
          collapseArrayOrSingleSchemas parent parentPath subschema vocab keyword v
      | CollapseObjectOfSchemas \<Rightarrow>
          collapseObjectOfSchemas parent parentPath subschema vocab keyword v
      | ParentWins \<Rightarrow> parentWins parent parentPath subschema vocab keyword v
      | CollisionFn \<Rightarrow> collision parent parentPath subschema vocab keyword v
      | NotSupportedFn \<Rightarrow> notSupported parent parentPath subschema vocab keyword v)"
| "collapseArrayOrSingleSchemas parent parentPath subschema vocab keyword v =
     (if keyword = ''items''
         \<and> (hasOwnProperty parent ''additionalItems''
            \<or> hasOwnProperty subschema ''additionalItems'')
      then Inl (AdditionalItemsNotSupported parentPath)
      else if isArray (get parent keyword) \<noteq> isArray v
      then Inl (MixedForms parentPath)
      else if isArray (get parent keyword)
      then (case collapseTuple 0 (elements (get parent keyword)) (elements v)
                   parentPath vocab keyword of
              Inl e \<Rightarrow> Inl e
            | Inr (parentVal', subVal') \<Rightarrow>
                Inr (mutated parent keyword
                       (JArr (parentVal' @ drop (length (elements (get parent keyword))) subVal')),
                     mutated subschema keyword (JArr subVal')))
      else (case collapseSchemas (get parent keyword) (parentPath @ [SKey keyword]) v vocab of
              Inl e \<Rightarrow> Inl e
            | Inr (parentVal', subVal') \<Rightarrow>
                Inr (mutated parent keyword parentVal',
                     mutated subschema keyword subVal')))"
| "collapseTuple i [] subVal parentPath vocab keyword = Inr ([], subVal)"
| "collapseTuple i (p # parentVal) [] parentPath vocab keyword = Inr (p # parentVal, [])"
| "collapseTuple i (p # parentVal) (s # subVal) parentPath vocab keyword =
     (case collapseSchemas p (parentPath @ [SKey keyword, SIdx i]) s vocab of
        Inl e \<Rightarrow> Inl e
      | Inr (p', s') \<Rightarrow>
          (case collapseTuple (Suc i) parentVal subVal parentPath vocab keyword of
             Inl e \<Rightarrow> Inl e
           | Inr (parentVal', subVal') \<Rightarrow> Inr (p' # parentVal', s' # subVal')))"
| "collapseObjectOfSchemas parent parentPath subschema vocab keyword v =
     (if (keyword = ''properties'' \<or> keyword = ''patternProperties'')
         \<and> (hasOwnProperty parent ''additionalProperties''
            \<or> hasOwnProperty subschema ''additionalProperties'')
      then Inl (AdditionalPropertiesNotSupported parentPath)
      else case (get parent keyword, v) of
             (JObj parentVal, JObj subVal) \<Rightarrow>
               (case collapseProps (unionKeys parentVal subVal) parentVal subVal subVal
                       parentPath vocab keyword of
                  Inl e \<Rightarrow> Inl e
                | Inr (parentVal', subVal') \<Rightarrow>
                    Inr (mutated parent keyword (JObj parentVal'),
                         mutated subschema keyword (JObj subVal')))
           | _ \<Rightarrow> Inl Unmodelled)"
| "collapseProps [] parentVal subVal0 subVal parentPath vocab keyword = Inr (parentVal, subVal)"
| "collapseProps (prop # props) parentVal subVal0 subVal parentPath vocab keyword =
     (if hasOwnProperty parentVal ''hasOwnProperty'' then Inl TypeError
      else if \<not> hasOwnProperty parentVal prop
      then (case assign parentVal prop (get subVal0 prop) of
              Inl e \<Rightarrow> Inl e
            | Inr parentVal' \<Rightarrow>
                collapseProps props parentVal' subVal0 subVal parentPath vocab keyword)
      else if hasOwnProperty subVal0 ''hasOwnProperty'' then Inl TypeError
      else if hasOwnProperty subVal0 prop
      then (case collapseSchemas (get parentVal prop)
                   (parentPath @ [SKey keyword, SKey prop]) (get subVal0 prop) vocab of
              Inl e \<Rightarrow> Inl e
            | Inr (p', s') \<Rightarrow>
                collapseProps props (mutated parentVal prop p') subVal0
                  (mutated subVal prop s') parentPath vocab keyword)
      else collapseProps props parentVal subVal0 subVal parentPath vocab keyword)"
  by pat_completeness auto
termination
  by (relation "measures
     [case_sum
        (case_sum
           (case_sum (\<lambda>(parent, parentPath, subschema, vocab). size subschema)
              (\<lambda>(entries, parent, parentPath, subschema, vocab). size (JObj entries)))
           (case_sum (\<lambda>(entries, parent, parentPath, subschema, vocab). size (JObj entries))
              (\<lambda>(f, parent, parentPath, subschema, vocab, keyword, v). size v)))
        (case_sum
           (case_sum (\<lambda>(parent, parentPath, subschema, vocab, keyword, v). size v)
              (\<lambda>(i, parentVal, subVal, parentPath, vocab, keyword). size (JArr subVal)))
           (case_sum (\<lambda>(parent, parentPath, subschema, vocab, keyword, v). size v)
              (\<lambda>(props, parentVal, subVal0, subVal, parentPath, vocab, keyword).
                 size (JObj subVal0)))),
      case_sum
        (case_sum (case_sum (\<lambda>_. 3) (\<lambda>_. 2)) (case_sum (\<lambda>_. 1) (\<lambda>_. 5)))
        (case_sum (case_sum (\<lambda>_. 4) (\<lambda>_. 1)) (case_sum (\<lambda>_. 4) (\<lambda>_. 1))),
      case_sum
        (case_sum (case_sum (\<lambda>_. 0) (\<lambda>_. 0)) (case_sum (\<lambda>_. 0) (\<lambda>_. 0)))
        (case_sum (case_sum (\<lambda>_. 0) (\<lambda>_. 0))
           (case_sum (\<lambda>_. 0)
              (\<lambda>(props, parentVal, subVal0, subVal, parentPath, vocab, keyword).
                 length props)))]")
     (auto simp: size_get_less size_elements)

text \<open>
  The equations of the functions that are not defined by patterns unfold for ever under
  the simplifier; they are used by name.
\<close>

declare collapseSchemas.simps [simp del]
declare collapseKeys.simps [simp del]
declare applyMerge.simps [simp del]
declare collapseArrayOrSingleSchemas.simps [simp del]
declare collapseObjectOfSchemas.simps [simp del]

section \<open>Vocabularies\<close>

text \<open>
  The tables of the source, in its order of construction. \<open>Object.assign({}, a, b)\<close> is
  \<open>a ++ b\<close>: the later table wins per keyword.
\<close>

definition DRAFT_04_NO_ID :: vocab where
  "DRAFT_04_NO_ID = map_of
     [(''type'', SingleValueOrArrayIntersection),
      (''enum'', ArrayIntersection),
      (''minimum'', ExclusiveComparison),
      (''maximum'', ExclusiveComparison),
      (''multipleOf'', CollisionFn),
      (''minLength'', MaxOfMin),
      (''maxLength'', MinOfMax),
      (''pattern'', CollisionFn),
      (''items'', CollapseArrayOrSingleSchemas),
      (''additionalItems'', NotSupportedFn),
      (''minItems'', MaxOfMin),
      (''maxItems'', MinOfMax),
      (''uniqueItems'', Or),
      (''properties'', CollapseObjectOfSchemas),
      (''patternProperties'', CollapseObjectOfSchemas),
      (''additionalProperties'', NotSupportedFn),
      (''dependencies'', NotSupportedFn),
      (''required'', ArrayUnion),
      (''minProperties'', MaxOfMin),
      (''maxProperties'', MinOfMax),
      (''allOf'', ParentWins),
      (''anyOf'', CollisionFn),
      (''oneOf'', CollisionFn),
      (''not'', CollisionFn),
      (''title'', ParentWins),
      (''description'', ParentWins),
      (''default'', ParentWins),
      (''format'', CollisionFn),
      (''definitions'', ParentWins),
      (''$ref'', NotSupportedFn)]"

definition DRAFT_04 :: vocab where
  "DRAFT_04 = DRAFT_04_NO_ID ++ map_of [(''id'', ParentWins)]"

definition DRAFT_04_HYPER :: vocab where
  "DRAFT_04_HYPER = DRAFT_04 ++ map_of
     [(''links'', ArrayUnion),
      (''readOnly'', Or),
      (''media'', CollisionFn),
      (''pathStart'', NotSupportedFn),
      (''fragmentResolution'', NotSupportedFn)]"

definition DRAFT_06 :: vocab where
  "DRAFT_06 = DRAFT_04_NO_ID ++ map_of
     [(''$id'', ParentWins),
      (''const'', CollisionFn),
      (''minimum'', MaxOfMin),
      (''exclusiveMinimum'', MaxOfMin),
      (''maximum'', MinOfMax),
      (''exclusiveMaximum'', MinOfMax),
      (''propertyNames'', CollapseObjectOfSchemas),
      (''examples'', ArrayUnion)]"

definition DRAFT_06_HYPER :: vocab where
  "DRAFT_06_HYPER = DRAFT_06 ++ map_of
     [(''base'', CollisionFn),
      (''links'', ArrayUnion),
      (''readOnly'', Or),
      (''media'', CollisionFn)]"

definition DRAFT_07 :: vocab where
  "DRAFT_07 = DRAFT_06 ++ map_of
     [(''if'', CollisionFn),
      (''then'', CollisionFn),
      (''else'', CollisionFn),
      (''readOnly'', Or),
      (''writeOnly'', Or),
      (''contentMediaType'', CollisionFn),
      (''contentEncoding'', CollisionFn)]"

definition DRAFT_07_HYPER :: vocab where
  "DRAFT_07_HYPER = DRAFT_07 ++ map_of
     [(''base'', CollisionFn),
      (''links'', ArrayUnion)]"

definition CLOUDFLARE_DOCA :: vocab where
  "CLOUDFLARE_DOCA = DRAFT_04_HYPER ++ map_of
     [(''$comment'', ParentWins),
      (''example'', ParentWins),
      (''cfPrivate'', Or),
      (''cfOmitFromExample'', Or),
      (''cfExtendedDescription'', ParentWins),
      (''cfNotes'', ParentWins),
      (''cfLinkErrors'', ArrayUnion),
      (''cfSectionNotes'', ArrayUnion),
      (''cfRecurse'', NotSupportedFn)]"

section \<open>The \<open>allOf\<close> reducer\<close>



text \<open>
  The reduction itself. The accumulator is the node; the mutated subschema stays in the
  node's \<open>allOf\<close> array, which the callback deletes at the end, and is dropped here.
\<close>

fun reduceAllOf :: "json list \<Rightarrow> json \<Rightarrow> path \<Rightarrow> vocab \<Rightarrow> error + json" where
  "reduceAllOf [] subAsParent parentPath vocab = Inr subAsParent"
| "reduceAllOf (schemaFromAllOf # rest) subAsParent parentPath vocab =
     (case collapseSchemas subAsParent parentPath schemaFromAllOf vocab of
        Inl e \<Rightarrow> Inl e
      | Inr (subAsParent', schemaFromAllOf') \<Rightarrow>
          reduceAllOf rest subAsParent' parentPath vocab)"



section \<open>The keyword loop in the words of the specification\<close>





text \<open>
  Some keyword of the subschema is handled by \<open>_exclusiveComparison\<close> and has \<open>x\<close> as the
  keyword of its modifier. In the tables of the source \<open>_exclusiveComparison\<close> stands under
  \<open>minimum\<close> and \<open>maximum\<close> only, so that this says: the vocabulary is a draft-04 one, and
  the subschema has \<open>minimum\<close> (for \<open>exclusiveMinimum\<close>) or \<open>maximum\<close> (for
  \<open>exclusiveMaximum\<close>).
\<close>

definition writesModifier :: "vocab \<Rightarrow> obj \<Rightarrow> string \<Rightarrow> bool" where
  "writesModifier vocab subschema x =
     list_ex (\<lambda>k. vocab k = Some ExclusiveComparison \<and> excKeyword k = x) (keys subschema)"

section \<open>Folding two subschemas in either order\<close>

text \<open>The five merges the specification calls order-insensitive.\<close>

definition orderInsensitive :: "merge_fn \<Rightarrow> bool" where
  "orderInsensitive f = (f \<in> {Or, MaxOfMin, MinOfMax, ArrayUnion, ArrayIntersection})"








text \<open>
  The keywords that at least two of the parent \<open>P\<close> and the subschemas \<open>A\<close> and \<open>B\<close>
  have, and the condition that each of them is handled by one of the five merges.
\<close>

definition overlapping :: "obj \<Rightarrow> obj \<Rightarrow> obj \<Rightarrow> string list" where
  "overlapping P A B =
     filter (\<lambda>k. hasOwnProperty P k \<or> hasOwnProperty B k) (keys A)
     @ filter (\<lambda>k. hasOwnProperty P k) (keys B)"

definition overlapsOrderInsensitive :: "vocab \<Rightarrow> obj \<Rightarrow> obj \<Rightarrow> obj \<Rightarrow> bool" where
  "overlapsOrderInsensitive vocab P A B =
     list_all (\<lambda>k. case vocab k of None \<Rightarrow> False | Some f \<Rightarrow> orderInsensitive f)
       (overlapping P A B)"



section \<open>Facts about own properties\<close>

lemma map_of_put: "map_of (put ob k v) = (map_of ob)(k \<mapsto> v)"
  by (induction ob) (auto simp: fun_eq_iff)

lemma map_of_delete: "map_of (delete ob k) = (map_of ob)(k := None)"
  by (induction ob) (auto simp: delete_def fun_eq_iff)

lemma map_of_mutated:
  "map_of (mutated ob k v) = (if hasOwnProperty ob k then (map_of ob)(k \<mapsto> v) else map_of ob)"
  by (induction ob) (auto simp: mutated_def hasOwnProperty_def fun_eq_iff)

lemma get_put: "get (put ob k v) k' = (if k' = k then v else get ob k')"
  by (simp add: get_def map_of_put)

lemma hasOwnProperty_put: "hasOwnProperty (put ob k v) k' = (k' = k \<or> hasOwnProperty ob k')"
  by (simp add: hasOwnProperty_def map_of_put)

lemma get_delete: "get (delete ob k) k' = (if k' = k then JUndef else get ob k')"
  by (simp add: get_def map_of_delete)

lemma hasOwnProperty_delete:
  "hasOwnProperty (delete ob k) k' = (k' \<noteq> k \<and> hasOwnProperty ob k')"
  by (simp add: hasOwnProperty_def map_of_delete)

lemma hasOwnProperty_mutated: "hasOwnProperty (mutated ob k v) k' = hasOwnProperty ob k'"
  by (simp add: hasOwnProperty_def map_of_mutated)

lemma get_mutated:
  "get (mutated ob k v) k' = (if k' = k \<and> hasOwnProperty ob k then v else get ob k')"
  by (simp add: get_def map_of_mutated)

lemma hasOwnProperty_keys: "hasOwnProperty ob k = (k \<in> set (keys ob))"
  by (simp add: hasOwnProperty_def keys_def map_of_eq_None_iff)



section \<open>Boolean schemas\<close>

lemma collapseSchemas_parent_true:
  "collapseSchemas (JBool True) parentPath subschema vocab = Inl (BooleanCollapse parentPath)"
  by (simp add: collapseSchemas.simps)

lemma collapseSchemas_parent_false:
  "collapseSchemas (JBool False) parentPath subschema vocab = Inr (JBool False, subschema)"
  by (simp add: collapseSchemas.simps)

lemma collapseSchemas_sub_false:
  "parent \<noteq> JBool False \<Longrightarrow>
   collapseSchemas parent parentPath (JBool False) vocab = Inl (BooleanCollapse parentPath)"
  by (simp add: collapseSchemas.simps)

lemma collapseSchemas_sub_true:
  "parent \<noteq> JBool True \<Longrightarrow>
   collapseSchemas parent parentPath (JBool True) vocab = Inr (parent, JBool True)"
  by (simp add: collapseSchemas.simps)

text \<open>
  C5, as the claim states it, fails: with parent \<open>true\<close> and subschema \<open>true\<close> the first
  test of \<open>collapseSchemas\<close> (\<open>parent === true\<close>) throws before the second one can return
  the parent.
\<close>

theorem C5_counterexample:
  "collapseSchemas (JBool True) [] (JBool True) DRAFT_04 = Inl (BooleanCollapse [])
   \<and> collapseSchemas (JBool True) [] (JBool True) DRAFT_04 \<noteq> Inr (JBool True, JBool True)"
  by (simp add: collapseSchemas.simps)

text \<open>
  C5 (amended): whenever at least one side is a boolean schema, \<open>collapseSchemas\<close> returns
  the parent unchanged, and leaves the subschema unchanged, exactly when the parent is
  \<open>false\<close> or the subschema is \<open>true\<close> and the parent is not \<open>true\<close>; in every other such
  combination, that is parent \<open>true\<close> with any subschema (also \<open>true\<close>), and subschema
  \<open>false\<close> with a parent that is not \<open>false\<close>, it fails with the boolean-collapse message.
\<close>

theorem C5_boolean_schemas:
  assumes "parent \<in> {JBool True, JBool False} \<or> subschema \<in> {JBool True, JBool False}"
  shows "collapseSchemas parent parentPath subschema vocab =
           (if parent = JBool False \<or> (subschema = JBool True \<and> parent \<noteq> JBool True)
            then Inr (parent, subschema)
            else Inl (BooleanCollapse parentPath))"
  using assms by (auto simp: collapseSchemas.simps)

theorem C5_boolean_schemas_witness:
  "collapseSchemas (JBool False) [SKey ''a''] (JBool False) DRAFT_04
     = Inr (JBool False, JBool False)
   \<and> collapseSchemas (JObj [(''title'', JStr ''t'')]) [SKey ''a''] (JBool True) DRAFT_04
     = Inr (JObj [(''title'', JStr ''t'')], JBool True)
   \<and> collapseSchemas (JBool True) [SKey ''a''] (JObj []) DRAFT_04
     = Inl (BooleanCollapse [SKey ''a''])
   \<and> collapseSchemas (JObj []) [SKey ''a''] (JBool False) DRAFT_04
     = Inl (BooleanCollapse [SKey ''a''])"
  using C5_boolean_schemas [of "JBool False" "JBool False" "[SKey ''a'']" DRAFT_04]
        C5_boolean_schemas [of "JObj [(''title'', JStr ''t'')]" "JBool True" "[SKey ''a'']" DRAFT_04]
        C5_boolean_schemas [of "JBool True" "JObj []" "[SKey ''a'']" DRAFT_04]
        C5_boolean_schemas [of "JObj []" "JBool False" "[SKey ''a'']" DRAFT_04]
  by simp

section \<open>Exclusive bounds\<close>

text \<open>
  C2: \<open>_exclusiveComparison\<close> on \<open>minimum\<close> or \<open>maximum\<close>, both sides holding a number under
  the keyword. It never fails. With equal bounds the bound stays and the modifier of the
  result is truthy exactly when the parent's or the subschema's is (it is set to \<open>true\<close>
  in that case, and the parent is left as it is otherwise); when the subschema's
  bound is strictly tighter (larger for \<open>minimum\<close>, smaller for \<open>maximum\<close>) the result
  takes the subschema's bound and the subschema's modifier; when the parent's bound is
  strictly tighter the parent is left as it is, so the subschema's modifier is dropped.
\<close>

theorem C2_exclusive_comparison:
  assumes "keyword = ''minimum'' \<or> keyword = ''maximum''"
    and "get parent keyword = JNum a"
    and "get subschema keyword = JNum b"
  shows "\<exists>parent'.
           exclusiveComparison parent parentPath subschema vocab keyword (get subschema keyword)
             = Inr (parent', subschema)
           \<and> (a = b \<longrightarrow>
                 get parent' keyword = JNum a
                 \<and> truthy (get parent' (excKeyword keyword))
                    = (truthy (get parent (excKeyword keyword))
                       \<or> truthy (get subschema (excKeyword keyword)))
                 \<and> (if truthy (get parent (excKeyword keyword))
                        \<or> truthy (get subschema (excKeyword keyword))
                     then get parent' (excKeyword keyword) = JBool True
                     else parent' = parent))
           \<and> ((keyword = ''minimum'' \<and> a < b) \<or> (keyword = ''maximum'' \<and> b < a) \<longrightarrow>
                 get parent' keyword = JNum b
                 \<and> get parent' (excKeyword keyword) = get subschema (excKeyword keyword))
           \<and> ((keyword = ''minimum'' \<and> b < a) \<or> (keyword = ''maximum'' \<and> a < b) \<longrightarrow>
                 parent' = parent)"
  using assms
  by (auto simp: exclusiveComparison_def chooseSubValue_def get_put excKeyword_def)

text \<open>
  The example of the claim: parent \<open>{minimum: 5}\<close>, subschema
  \<open>{minimum: 3, exclusiveMinimum: true}\<close>.
\<close>

theorem C2_exclusive_comparison_witness:
  "exclusiveComparison [(''minimum'', JNum 5)] []
       [(''minimum'', JNum 3), (''exclusiveMinimum'', JBool True)] DRAFT_04 ''minimum'' (JNum 3)
     = Inr ([(''minimum'', JNum 5)],
            [(''minimum'', JNum 3), (''exclusiveMinimum'', JBool True)])
   \<and> \<not> hasOwnProperty [(''minimum'', JNum 5)] ''exclusiveMinimum''"
  using C2_exclusive_comparison
          [of "''minimum''" "[(''minimum'', JNum 5)]" 5
              "[(''minimum'', JNum 3), (''exclusiveMinimum'', JBool True)]" 3 "[]" DRAFT_04]
  by (simp add: get_def hasOwnProperty_def)

section \<open>Companion keywords\<close>



section \<open>The subschema is mutated\<close>

lemma isArray_arrayLike: "isArray x \<Longrightarrow> \<exists>xs. x = JArr xs \<and> arrayLike x = Some xs"
  by (cases x) auto

lemma wrapped_array: "\<exists>xs. wrapped v = JArr xs"
  by (cases v) (auto simp: wrapped_def)

lemma put_array_differs:
  assumes "\<not> isArray (get ob k)"
  shows "put ob k (JArr [get ob k]) \<noteq> ob"
proof
  assume "put ob k (JArr [get ob k]) = ob"
  then have "get (put ob k (JArr [get ob k])) k = get ob k" by simp
  then have "JArr [get ob k] = get ob k" by (simp add: get_put)
  with assms show False by (cases "get ob k") auto
qed

text \<open>
  C9: \<open>_singleValueOrArrayIntersection\<close> writes to the subschema it is given. When the
  subschema's value under the keyword is not an array, the call succeeds and the
  subschema it leaves behind holds the one-element array of that value under the keyword,
  which is not the subschema it was given. The comment that heads the collapser functions
  in the source says that they do not modify the subschema.
\<close>

theorem C9_subschema_mutated:
  assumes "\<not> isArray (get subschema keyword)"
  shows "(\<exists>parent'.
            singleValueOrArrayIntersection parent parentPath subschema vocab keyword
                (get subschema keyword)
              = Inr (parent', put subschema keyword (JArr [get subschema keyword])))
         \<and> put subschema keyword (JArr [get subschema keyword]) \<noteq> subschema"
proof -
  have w: "wrapped (get subschema keyword) = JArr [get subschema keyword]"
    using assms by (simp add: wrapped_def)
  show ?thesis
  proof (cases "isArray (get parent keyword)")
    case True
    then obtain xs where "arrayLike (get parent keyword) = Some xs"
      using isArray_arrayLike by blast
    with True w assms show ?thesis
      by (simp add: singleValueOrArrayIntersection_def arrayIntersection_def Let_def
            put_array_differs)
  next
    case False
    with w assms show ?thesis
      by (simp add: singleValueOrArrayIntersection_def arrayIntersection_def Let_def
            put_array_differs get_put)
  qed
qed

text \<open>
  \<open>{type: "string"}\<close> against \<open>{type: "string"}\<close>, by the collapser alone and through
  \<open>collapseSchemas\<close> under the draft-04 vocabulary.
\<close>

theorem C9_subschema_mutated_witness:
  "singleValueOrArrayIntersection [(''type'', JStr ''string'')] []
       [(''type'', JStr ''string'')] DRAFT_04 ''type'' (JStr ''string'')
     = Inr ([(''type'', JStr ''string'')], [(''type'', JArr [JStr ''string''])])
   \<and> collapseSchemas (JObj [(''type'', JStr ''string'')]) []
         (JObj [(''type'', JStr ''string'')]) DRAFT_04
     = Inr (JObj [(''type'', JStr ''string'')], JObj [(''type'', JArr [JStr ''string''])])"
proof -
  have "get [(''type'', JStr ''string'')] ''type'' = JStr ''string''"
    by (simp add: get_def)
  then have "\<exists>parent'.
            singleValueOrArrayIntersection [(''type'', JStr ''string'')] []
                [(''type'', JStr ''string'')] DRAFT_04 ''type'' (JStr ''string'')
              = Inr (parent', [(''type'', JArr [JStr ''string''])])"
    using C9_subschema_mutated
            [of "[(''type'', JStr ''string'')]" "''type''" "[(''type'', JStr ''string'')]"
                "[]" DRAFT_04]
    by simp
  moreover have "singleValueOrArrayIntersection [(''type'', JStr ''string'')] []
       [(''type'', JStr ''string'')] DRAFT_04 ''type'' (JStr ''string'')
     = Inr ([(''type'', JStr ''string'')], [(''type'', JArr [JStr ''string''])])"
    by code_simp
  moreover have "collapseSchemas (JObj [(''type'', JStr ''string'')]) []
         (JObj [(''type'', JStr ''string'')]) DRAFT_04
     = Inr (JObj [(''type'', JStr ''string'')], JObj [(''type'', JArr [JStr ''string''])])"
    by code_simp
  ultimately show ?thesis by simp
qed

section \<open>Array or single schema\<close>




section \<open>The keyword loop\<close>

lemma collapseSchemas_objects:
  "collapseSchemas (JObj p) parentPath (JObj s) vocab =
     (case collapseKeys s (pruneDangling p) parentPath s vocab of
        Inl e \<Rightarrow> Inl e
      | Inr (p', s') \<Rightarrow> Inr (JObj p', JObj s'))"
  by (simp add: collapseSchemas.simps)

lemma map_of_unwrapSingle:
  "x \<noteq> k \<Longrightarrow> map_of (unwrapSingle ob k) x = map_of ob x"
  by (auto simp: unwrapSingle_def map_of_put split: json.splits list.splits)

lemma hasOwnProperty_unwrapSingle:
  "hasOwnProperty (unwrapSingle ob k) x \<Longrightarrow> x = k \<or> hasOwnProperty ob x"
  by (auto simp: unwrapSingle_def hasOwnProperty_put split: json.splits list.splits)

text \<open>A collapser writes the parent under its keyword and, for the exclusive comparison,
  under the modifier's keyword; every other property of the parent is as before.\<close>

lemma applyMerge_frame:
  assumes "applyMerge f parent parentPath subschema vocab k v = Inr (p', s')"
    and "x \<noteq> k"
    and "\<not> (f = ExclusiveComparison \<and> x = excKeyword k)"
  shows "map_of p' x = map_of parent x"
proof (cases f)
  case SingleValueOrArrayIntersection
  with assms show ?thesis
    by (auto simp: applyMerge.simps singleValueOrArrayIntersection_def arrayIntersection_def
          Let_def map_of_put map_of_unwrapSingle
          split: option.splits if_splits sum.splits prod.splits)
next
  case CollapseArrayOrSingleSchemas
  with assms show ?thesis
    by (auto simp: applyMerge.simps collapseArrayOrSingleSchemas.simps map_of_mutated
          split: option.splits if_splits sum.splits prod.splits)
next
  case CollapseObjectOfSchemas
  with assms show ?thesis
    by (auto simp: applyMerge.simps collapseObjectOfSchemas.simps map_of_mutated
          split: option.splits if_splits sum.splits prod.splits json.splits)
qed (use assms in \<open>auto simp: applyMerge.simps orValues_def maxOfMin_def minOfMax_def
      exclusiveComparison_def arrayUnion_def arrayIntersection_def parentWins_def
      collision_def notSupported_def map_of_put
      split: option.splits if_splits\<close>)

text \<open>A collapser writes the subschema under its keyword only.\<close>

lemma applyMerge_subschema_frame:
  assumes "applyMerge f parent parentPath subschema vocab k v = Inr (p', s')"
    and "x \<noteq> k"
  shows "map_of s' x = map_of subschema x"
proof (cases f)
  case SingleValueOrArrayIntersection
  with assms show ?thesis
    by (auto simp: applyMerge.simps singleValueOrArrayIntersection_def arrayIntersection_def
          Let_def map_of_put split: option.splits if_splits sum.splits prod.splits)
next
  case CollapseArrayOrSingleSchemas
  with assms show ?thesis
    by (auto simp: applyMerge.simps collapseArrayOrSingleSchemas.simps map_of_mutated
          split: option.splits if_splits sum.splits prod.splits)
next
  case CollapseObjectOfSchemas
  with assms show ?thesis
    by (auto simp: applyMerge.simps collapseObjectOfSchemas.simps map_of_mutated
          split: option.splits if_splits sum.splits prod.splits json.splits)
qed (use assms in \<open>auto simp: applyMerge.simps orValues_def maxOfMin_def minOfMax_def
      exclusiveComparison_def arrayUnion_def arrayIntersection_def parentWins_def
      collision_def notSupported_def
      split: option.splits if_splits\<close>)

lemma map_of_pruneDangling:
  "map_of (pruneDangling p) x =
     (if (x = ''exclusiveMaximum'' \<and> \<not> hasOwnProperty p ''maximum'')
         \<or> (x = ''exclusiveMinimum'' \<and> \<not> hasOwnProperty p ''minimum'')
      then None else map_of p x)"
  by (auto simp: pruneDangling_def Let_def map_of_delete hasOwnProperty_delete
        hasOwnProperty_def)


lemma assign_cases:
  assumes "assign ob k v = Inr ob'"
  shows "(ob' = put ob k v \<and> (k = ''__proto__'' \<longrightarrow> hasOwnProperty ob k))
         \<or> (k = ''__proto__'' \<and> \<not> hasOwnProperty ob k \<and> ob' = ob)"
  using assms by (auto simp: assign_def split: if_splits)

lemma assign_plain: "k \<noteq> ''__proto__'' \<Longrightarrow> assign ob k v = Inr (put ob k v)"
  by (simp add: assign_def)

lemma map_of_assign:
  "assign ob k v = Inr ob' \<Longrightarrow> x \<noteq> k \<Longrightarrow> map_of ob' x = map_of ob x"
  by (auto dest!: assign_cases simp: map_of_put)

lemma collapseKeys_loop:
  "collapseKeys es parent parentPath subschema vocab = Inr (p', s') \<Longrightarrow>
   collapseLoop es parent parentPath subschema vocab = Inr (p', s')"
  by (simp add: collapseKeys.simps split: if_splits)

lemma collapseLoop_frame:
  "collapseLoop es parent parentPath subschema vocab = Inr (p', s') \<Longrightarrow>
   x \<notin> fst ` set es \<Longrightarrow>
   (\<forall>k \<in> fst ` set es. vocab k = Some ExclusiveComparison \<longrightarrow> excKeyword k \<noteq> x) \<Longrightarrow>
   map_of p' x = map_of parent x"
proof (induction es arbitrary: parent subschema)
  case Nil
  then show ?case by simp
next
  case (Cons kv es)
  obtain k v where kv: "kv = (k, v)" by (cases kv)
  have xk: "x \<noteq> k" using Cons.prems(2) kv by auto
  have rest: "x \<notin> fst ` set es"
    "\<forall>k \<in> fst ` set es. vocab k = Some ExclusiveComparison \<longrightarrow> excKeyword k \<noteq> x"
    using Cons.prems(2,3) by auto
  show ?case
  proof (cases "hasOwnProperty parent k")
    case False
    with Cons.prems(1) kv obtain p1 where
      step: "assign parent k v = Inr p1"
      and loop: "collapseLoop es p1 parentPath subschema vocab = Inr (p', s')"
      by (auto split: if_splits sum.splits)
    from Cons.IH [OF loop rest] map_of_assign [OF step xk] show ?thesis by simp
  next
    case True
    show ?thesis
    proof (cases "vocab k")
      case None
      with True Cons.prems(1) kv
      have "collapseLoop es parent parentPath subschema vocab = Inr (p', s')"
        by (auto split: if_splits inherited.splits)
      from Cons.IH [OF this rest] show ?thesis .
    next
      case (Some f)
      with True Cons.prems(1) kv obtain p1 s1 where
        step: "applyMerge f parent parentPath subschema vocab k v = Inr (p1, s1)"
        and loop: "collapseLoop es p1 parentPath s1 vocab = Inr (p', s')"
        by (auto split: if_splits sum.splits)
      have "\<not> (f = ExclusiveComparison \<and> x = excKeyword k)"
        using Cons.prems(3) kv Some by auto
      from applyMerge_frame [OF step xk this] Cons.IH [OF loop rest]
      show ?thesis by simp
    qed
  qed
qed

lemma collapseKeys_frame:
  "collapseKeys es parent parentPath subschema vocab = Inr (p', s') \<Longrightarrow>
   x \<notin> fst ` set es \<Longrightarrow>
   (\<forall>k \<in> fst ` set es. vocab k = Some ExclusiveComparison \<longrightarrow> excKeyword k \<noteq> x) \<Longrightarrow>
   map_of p' x = map_of parent x"
  by (rule collapseLoop_frame [OF collapseKeys_loop])

text \<open>
  A keyword the parent lacks ends with the subschema's value; \<open>__proto__\<close> apart, which the
  assignment does not add.
\<close>

lemma collapseLoop_copies:
  "collapseLoop es parent parentPath subschema vocab = Inr (p', s') \<Longrightarrow>
   distinct (map fst es) \<Longrightarrow>
   (x, v) \<in> set es \<Longrightarrow>
   \<not> hasOwnProperty parent x \<Longrightarrow>
   x \<noteq> ''__proto__'' \<Longrightarrow>
   (\<forall>k \<in> fst ` set es. vocab k = Some ExclusiveComparison \<longrightarrow> excKeyword k \<noteq> x) \<Longrightarrow>
   map_of p' x = Some v"
proof (induction es arbitrary: parent subschema)
  case Nil
  then show ?case by simp
next
  case (Cons kw es)
  obtain k w where kw: "kw = (k, w)" by (cases kw)
  have exc: "\<forall>k \<in> fst ` set es. vocab k = Some ExclusiveComparison \<longrightarrow> excKeyword k \<noteq> x"
    using Cons.prems(6) by auto
  have dist: "distinct (map fst es)" "k \<notin> fst ` set es"
    using Cons.prems(2) kw by auto
  show ?case
  proof (cases "k = x")
    case True
    then have wv: "w = v"
      using Cons.prems(2,3) kw by (auto simp: image_iff)
    have "collapseLoop es (put parent x v) parentPath subschema vocab = Inr (p', s')"
      using Cons.prems(1,4,5) kw True wv by (auto simp: assign_plain split: if_splits)
    from collapseLoop_frame [OF this] dist(2) exc True
    show ?thesis by (simp add: map_of_put)
  next
    case False
    then have mem: "(x, v) \<in> set es" using Cons.prems(3) kw by auto
    show ?thesis
    proof (cases "hasOwnProperty parent k")
      case hasNot: False
      with Cons.prems(1) kw obtain p1 where
        step: "assign parent k w = Inr p1"
        and loop: "collapseLoop es p1 parentPath subschema vocab = Inr (p', s')"
        by (auto split: if_splits sum.splits)
      have "map_of p1 x = map_of parent x"
        using map_of_assign [OF step] False by simp
      then have "\<not> hasOwnProperty p1 x"
        using Cons.prems(4) by (simp add: hasOwnProperty_def)
      from Cons.IH [OF loop dist(1) mem this Cons.prems(5) exc] show ?thesis .
    next
      case has: True
      show ?thesis
      proof (cases "vocab k")
        case None
        with has Cons.prems(1) kw
        have loop: "collapseLoop es parent parentPath subschema vocab = Inr (p', s')"
          by (auto split: if_splits inherited.splits)
        from Cons.IH [OF loop dist(1) mem Cons.prems(4,5) exc] show ?thesis .
      next
        case (Some f)
        with has Cons.prems(1) kw obtain p1 s1 where
          step: "applyMerge f parent parentPath subschema vocab k w = Inr (p1, s1)"
          and loop: "collapseLoop es p1 parentPath s1 vocab = Inr (p', s')"
          by (auto split: if_splits sum.splits)
        have "\<not> (f = ExclusiveComparison \<and> x = excKeyword k)"
          using Cons.prems(6) kw Some by auto
        from applyMerge_frame [OF step _ this] False
        have "map_of p1 x = map_of parent x" by simp
        then have "\<not> hasOwnProperty p1 x"
          using Cons.prems(4) by (simp add: hasOwnProperty_def)
        from Cons.IH [OF loop dist(1) mem this Cons.prems(5) exc] show ?thesis .
      qed
    qed
  qed
qed

lemma collapseKeys_copies:
  "collapseKeys es parent parentPath subschema vocab = Inr (p', s') \<Longrightarrow>
   distinct (map fst es) \<Longrightarrow>
   (x, v) \<in> set es \<Longrightarrow>
   \<not> hasOwnProperty parent x \<Longrightarrow>
   x \<noteq> ''__proto__'' \<Longrightarrow>
   (\<forall>k \<in> fst ` set es. vocab k = Some ExclusiveComparison \<longrightarrow> excKeyword k \<noteq> x) \<Longrightarrow>
   map_of p' x = Some v"
  by (rule collapseLoop_copies [OF collapseKeys_loop])

lemma excKeyword_not_proto: "excKeyword k \<noteq> ''__proto__''"
  by (simp add: excKeyword_def)

lemma excKeyword_not_bound: "excKeyword k \<noteq> ''minimum''" "excKeyword k \<noteq> ''maximum''"
  by (simp_all add: excKeyword_def)

lemma collapseSchemas_frame:
  assumes "collapseSchemas (JObj parent) parentPath (JObj subschema) vocab = Inr (JObj p', s')"
    and "\<not> hasOwnProperty subschema x"
    and "\<not> writesModifier vocab subschema x"
  shows "map_of p' x = map_of (pruneDangling parent) x"
proof -
  from assms(1) obtain s1 where
    "collapseKeys subschema (pruneDangling parent) parentPath subschema vocab = Inr (p', s1)"
    by (auto simp: collapseSchemas_objects split: sum.splits)
  moreover have "x \<notin> fst ` set subschema"
    using assms(2) by (simp add: hasOwnProperty_keys keys_def)
  moreover have "\<forall>k \<in> fst ` set subschema.
      vocab k = Some ExclusiveComparison \<longrightarrow> excKeyword k \<noteq> x"
    using assms(3) by (auto simp: writesModifier_def list_ex_iff keys_def)
  ultimately show ?thesis by (rule collapseKeys_frame)
qed

subsection \<open>Dispatch\<close>






subsection \<open>Dangling modifiers\<close>

text \<open>
  C7: \<open>collapseSchemas\<close> runs its keyword loop on the pruned parent. Pruning removes
  \<open>exclusiveMaximum\<close> when the parent has no \<open>maximum\<close> and \<open>exclusiveMinimum\<close> when it has
  no \<open>minimum\<close>, keeps the modifier when the bound is there, and touches no other
  property. When moreover the subschema has neither the modifier nor a keyword whose
  exclusive comparison writes it, a successful collapse returns a parent without the
  modifier.
\<close>

theorem C7_dangling_modifiers_pruned:
  assumes "m = ''minimum'' \<or> m = ''maximum''"
  shows "collapseSchemas (JObj parent) parentPath (JObj subschema) vocab =
           (case collapseKeys subschema (pruneDangling parent) parentPath subschema vocab of
              Inl e \<Rightarrow> Inl e
            | Inr (p', s') \<Rightarrow> Inr (JObj p', JObj s'))
         \<and> (\<not> hasOwnProperty parent m \<longrightarrow> \<not> hasOwnProperty (pruneDangling parent) (excKeyword m))
         \<and> (hasOwnProperty parent m \<longrightarrow>
               map_of (pruneDangling parent) (excKeyword m) = map_of parent (excKeyword m))
         \<and> (\<forall>x. x \<noteq> ''exclusiveMinimum'' \<and> x \<noteq> ''exclusiveMaximum'' \<longrightarrow>
               map_of (pruneDangling parent) x = map_of parent x)
         \<and> (\<not> hasOwnProperty parent m
              \<and> \<not> hasOwnProperty subschema (excKeyword m)
              \<and> \<not> writesModifier vocab subschema (excKeyword m)
              \<and> collapseSchemas (JObj parent) parentPath (JObj subschema) vocab
                  = Inr (JObj parent', subschema') \<longrightarrow>
               \<not> hasOwnProperty parent' (excKeyword m))"
proof (intro conjI impI allI)
  show "collapseSchemas (JObj parent) parentPath (JObj subschema) vocab =
           (case collapseKeys subschema (pruneDangling parent) parentPath subschema vocab of
              Inl e \<Rightarrow> Inl e
            | Inr (p', s') \<Rightarrow> Inr (JObj p', JObj s'))"
    by (rule collapseSchemas_objects)
next
  assume "\<not> hasOwnProperty parent m"
  with assms show "\<not> hasOwnProperty (pruneDangling parent) (excKeyword m)"
    by (auto simp: hasOwnProperty_def [of "pruneDangling parent"] map_of_pruneDangling
          excKeyword_def)
next
  assume "hasOwnProperty parent m"
  with assms show "map_of (pruneDangling parent) (excKeyword m) = map_of parent (excKeyword m)"
    by (auto simp: map_of_pruneDangling excKeyword_def)
next
  fix x assume "x \<noteq> ''exclusiveMinimum'' \<and> x \<noteq> ''exclusiveMaximum''"
  then show "map_of (pruneDangling parent) x = map_of parent x"
    by (simp add: map_of_pruneDangling)
next
  assume h: "\<not> hasOwnProperty parent m
      \<and> \<not> hasOwnProperty subschema (excKeyword m)
      \<and> \<not> writesModifier vocab subschema (excKeyword m)
      \<and> collapseSchemas (JObj parent) parentPath (JObj subschema) vocab
          = Inr (JObj parent', subschema')"
  then have "map_of parent' (excKeyword m) = map_of (pruneDangling parent) (excKeyword m)"
    by (intro collapseSchemas_frame [of parent parentPath subschema vocab parent' subschema'])
       auto
  moreover have "map_of (pruneDangling parent) (excKeyword m) = None"
    using h assms by (auto simp: map_of_pruneDangling excKeyword_def)
  ultimately show "\<not> hasOwnProperty parent' (excKeyword m)"
    by (simp add: hasOwnProperty_def)
qed

text \<open>The claim's example: parent \<open>{exclusiveMaximum: true}\<close>, subschema \<open>{title: "t"}\<close>.\<close>

theorem C7_dangling_modifiers_pruned_witness:
  "collapseSchemas (JObj [(''exclusiveMaximum'', JBool True)]) []
       (JObj [(''title'', JStr ''t'')]) DRAFT_04
     = Inr (JObj [(''title'', JStr ''t'')], JObj [(''title'', JStr ''t'')])
   \<and> \<not> hasOwnProperty [(''title'', JStr ''t'')] (excKeyword ''maximum'')"
proof -
  have run: "collapseSchemas (JObj [(''exclusiveMaximum'', JBool True)]) []
       (JObj [(''title'', JStr ''t'')]) DRAFT_04
     = Inr (JObj [(''title'', JStr ''t'')], JObj [(''title'', JStr ''t'')])"
    by code_simp
  have "\<not> hasOwnProperty [(''exclusiveMaximum'', JBool True)] ''maximum''"
    "\<not> hasOwnProperty [(''title'', JStr ''t'')] (excKeyword ''maximum'')"
    "\<not> writesModifier DRAFT_04 [(''title'', JStr ''t'')] (excKeyword ''maximum'')"
    by (simp_all add: hasOwnProperty_def writesModifier_def keys_def excKeyword_def)
  with run show ?thesis
    using C7_dangling_modifiers_pruned
            [of "''maximum''" "[(''exclusiveMaximum'', JBool True)]" "[]"
                "[(''title'', JStr ''t'')]" DRAFT_04 "[(''title'', JStr ''t'')]"
                "JObj [(''title'', JStr ''t'')]"]
    by simp
qed

text \<open>
  C10: pruning looks at the parent only. When the subschema (its keys distinct, as in
  any JavaScript object) has the modifier and not the bound, the parent lacks the
  modifier, and no keyword of the subschema has its exclusive comparison write the
  modifier, a successful collapse returns a parent that has the modifier with the
  subschema's value; if the parent had no bound, the result has the modifier and no
  bound.
\<close>

theorem C10_dangling_modifier_copied:
  assumes "m = ''minimum'' \<or> m = ''maximum''"
    and "distinct (keys subschema)"
    and "hasOwnProperty subschema (excKeyword m)"
    and "\<not> hasOwnProperty subschema m"
    and "\<not> hasOwnProperty parent (excKeyword m)"
    and "\<not> writesModifier vocab subschema (excKeyword m)"
    and "collapseSchemas (JObj parent) parentPath (JObj subschema) vocab
           = Inr (JObj parent', subschema')"
  shows "hasOwnProperty parent' (excKeyword m)
         \<and> get parent' (excKeyword m) = get subschema (excKeyword m)
         \<and> (\<not> hasOwnProperty parent m \<longrightarrow> \<not> hasOwnProperty parent' m)"
proof -
  from assms(7) obtain s1 where loop:
    "collapseKeys subschema (pruneDangling parent) parentPath subschema vocab = Inr (parent', s1)"
    by (auto simp: collapseSchemas_objects split: sum.splits)
  obtain v where v: "map_of subschema (excKeyword m) = Some v"
    using assms(3) by (auto simp: hasOwnProperty_def)
  then have mem: "(excKeyword m, v) \<in> set subschema" by (rule map_of_SomeD)
  have lacks: "\<not> hasOwnProperty (pruneDangling parent) (excKeyword m)"
    using assms(5) by (simp add: hasOwnProperty_def map_of_pruneDangling)
  have exc: "\<forall>k \<in> fst ` set subschema.
      vocab k = Some ExclusiveComparison \<longrightarrow> excKeyword k \<noteq> excKeyword m"
    using assms(6) by (auto simp: writesModifier_def list_ex_iff keys_def)
  have copied: "map_of parent' (excKeyword m) = Some v"
    using collapseKeys_copies [OF loop _ mem lacks excKeyword_not_proto exc] assms(2)
    by (simp add: keys_def)
  have bound: "map_of parent' m = map_of (pruneDangling parent) m"
  proof (rule collapseSchemas_frame [OF assms(7) assms(4)])
    show "\<not> writesModifier vocab subschema m"
      using assms(1) excKeyword_not_bound
      by (auto simp: writesModifier_def list_ex_iff)
  qed
  have "map_of (pruneDangling parent) m = map_of parent m"
    using assms(1) by (auto simp: map_of_pruneDangling)
  with copied v bound show ?thesis
    by (simp add: hasOwnProperty_def get_def)
qed

text \<open>Parent \<open>{title: "t"}\<close>, subschema \<open>{exclusiveMinimum: true}\<close>, draft-04 vocabulary.\<close>

theorem C10_dangling_modifier_copied_witness:
  "collapseSchemas (JObj [(''title'', JStr ''t'')]) []
       (JObj [(''exclusiveMinimum'', JBool True)]) DRAFT_04
     = Inr (JObj [(''title'', JStr ''t''), (''exclusiveMinimum'', JBool True)],
            JObj [(''exclusiveMinimum'', JBool True)])
   \<and> hasOwnProperty [(''title'', JStr ''t''), (''exclusiveMinimum'', JBool True)]
        (excKeyword ''minimum'')
   \<and> get [(''title'', JStr ''t''), (''exclusiveMinimum'', JBool True)] (excKeyword ''minimum'')
       = get [(''exclusiveMinimum'', JBool True)] (excKeyword ''minimum'')
   \<and> \<not> hasOwnProperty [(''title'', JStr ''t''), (''exclusiveMinimum'', JBool True)] ''minimum''"
proof -
  let ?parent = "[(''title'', JStr ''t'')]"
  let ?sub = "[(''exclusiveMinimum'', JBool True)]"
  let ?result = "[(''title'', JStr ''t''), (''exclusiveMinimum'', JBool True)]"
  have run: "collapseSchemas (JObj ?parent) [] (JObj ?sub) DRAFT_04
     = Inr (JObj ?result, JObj ?sub)"
    by code_simp
  have hyps: "distinct (keys ?sub)" "hasOwnProperty ?sub (excKeyword ''minimum'')"
    "\<not> hasOwnProperty ?sub ''minimum''" "\<not> hasOwnProperty ?parent (excKeyword ''minimum'')"
    "\<not> writesModifier DRAFT_04 ?sub (excKeyword ''minimum'')"
    "\<not> hasOwnProperty ?parent ''minimum''"
    by (simp_all add: hasOwnProperty_def writesModifier_def keys_def excKeyword_def
          DRAFT_04_def DRAFT_04_NO_ID_def)
  from C10_dangling_modifier_copied [OF _ hyps(1-5) run] hyps(6) run
  show ?thesis by simp
qed

text \<open>
  The same copy makes \<open>collapseSchemas\<close> differ from \<open>_exclusiveComparison\<close> alone on the
  example of C2: the comparison leaves the parent \<open>{minimum: 5}\<close> as it is, and the loop
  then copies the subschema's \<open>exclusiveMinimum\<close>, which the parent lacks.
\<close>

lemma collapseSchemas_exclusivity_example:
  "collapseSchemas (JObj [(''minimum'', JNum 5)]) []
       (JObj [(''minimum'', JNum 3), (''exclusiveMinimum'', JBool True)]) DRAFT_04
     = Inr (JObj [(''minimum'', JNum 5), (''exclusiveMinimum'', JBool True)],
            JObj [(''minimum'', JNum 3), (''exclusiveMinimum'', JBool True)])"
  by code_simp

section \<open>An unrecognised meta-schema URI\<close>
















section \<open>Order of the fold\<close>






















lemma overlapsOrderInsensitive_iff:
  "overlapsOrderInsensitive vocab P A B =
     (\<forall>k. (hasOwnProperty P k \<and> hasOwnProperty A k)
           \<or> (hasOwnProperty P k \<and> hasOwnProperty B k)
           \<or> (hasOwnProperty A k \<and> hasOwnProperty B k)
        \<longrightarrow> (\<exists>f. vocab k = Some f \<and> orderInsensitive f))"
  by (auto simp: overlapsOrderInsensitive_def overlapping_def list_all_iff
        hasOwnProperty_keys split: option.splits)

lemma overlapsOrderInsensitive_commute:
  "overlapsOrderInsensitive vocab P A B = overlapsOrderInsensitive vocab P B A"
  unfolding overlapsOrderInsensitive_iff by blast





text \<open>
  The same happens under the draft-04 vocabulary with no keyword shared at all: the
  modifier of one subschema is pruned when it arrives before the other's bound and kept
  when it arrives after it.
\<close>

lemma reduceAllOf_draft_04_order_example:
  "reduceAllOf [JObj [(''exclusiveMinimum'', JBool True)], JObj [(''minimum'', JNum 3)]]
        (JObj []) [] DRAFT_04
      = Inr (JObj [(''minimum'', JNum 3)])
   \<and> reduceAllOf [JObj [(''minimum'', JNum 3)], JObj [(''exclusiveMinimum'', JBool True)]]
        (JObj []) [] DRAFT_04
      = Inr (JObj [(''minimum'', JNum 3), (''exclusiveMinimum'', JBool True)])"
  by code_simp



end
